theory Spec2Isabelle
  imports Complex_Main "HOL-Library.Word"
begin

section \<open>Values shared by the two scripts\<close>

text \<open>
  A Python \<^verbatim>\<open>datetime.date\<close> is modelled by its proleptic Gregorian ordinal
  (\<^verbatim>\<open>date.toordinal()\<close>, day 1 is 0001-01-01), a \<^verbatim>\<open>pd.Timestamp\<close> by its
  \<^verbatim>\<open>.value\<close>: the nanoseconds since 1970-01-01 00:00 of the naive local clock.
  \<^verbatim>\<open>Timestamp.date()\<close> drops the time of day; 1970-01-01 has ordinal 719163.
\<close>

datatype date = Date (toordinal: int)

datatype timestamp = Timestamp (nanos: int)

definition ts_date :: "timestamp \<Rightarrow> date" where
  "ts_date t = Date (719163 + nanos t div 86400000000000)"

text \<open>
  The exceptions the two scripts can meet: \<^verbatim>\<open>OverflowError\<close> from date arithmetic that
  leaves the range of \<^verbatim>\<open>datetime.date\<close>, and whatever the spreadsheet writer raises.
\<close>

datatype error = OverflowError | ExcelError string

type_synonym bytes = "8 word list"

section \<open>The attendance recorder (3_EmployeeAttendence.py)\<close>

subsection \<open>Records, data frames and workbooks\<close>

text \<open>
  The script appends a Python dict per submission. A dict keeps its keys in insertion
  order, and that order decides the column order of the data frame, so a dict is an
  association list here.
\<close>

datatype cell = DateCell date | TextCell string | TimestampCell timestamp | IntCell int

type_synonym pydict = "(string \<times> cell) list"

text \<open>
  \<^verbatim>\<open>pd.DataFrame(list_of_dicts)\<close>: the columns are the keys in the order of their first
  appearance, every dict is one row, and a key a dict lacks gives a missing value
  (\<open>None\<close> here, NaN in pandas).
\<close>

record dataframe =
  columns :: "string list"
  body :: "cell option list list"

definition union_keys :: "pydict list \<Rightarrow> string list" where
  "union_keys ds =
     foldl (\<lambda>acc k. if k \<in> set acc then acc else acc @ [k]) [] (concat (map (map fst) ds))"

definition DataFrame :: "pydict list \<Rightarrow> dataframe" where
  "DataFrame ds =
     (let cols = union_keys ds
      in \<lparr>columns = cols, body = map (\<lambda>d. map (map_of d) cols) ds\<rparr>)"

text \<open>
  A workbook is the list of its sheets; a sheet is a name and a grid of cells, the first
  grid row being the first spreadsheet row. \<^verbatim>\<open>df.to_excel(writer, index, sheet_name)\<close>
  adds one sheet to the writer: the column names as the header row, then the rows of the
  frame; with \<^verbatim>\<open>index=True\<close> every row is preceded by its index label and the header by
  an empty cell.
\<close>

record sheet =
  sheet_name :: string
  grid :: "cell option list list"

type_synonym workbook = "sheet list"

definition df_to_excel :: "dataframe \<Rightarrow> workbook \<Rightarrow> bool \<Rightarrow> string \<Rightarrow> workbook" where
  "df_to_excel df writer index name =
     (let header = map (\<lambda>c. Some (TextCell c)) (columns df)
      in writer @
         [\<lparr>sheet_name = name,
           grid = (if index
                   then (None # header) #
                        map (\<lambda>(i, r). Some (IntCell (int i)) # r) (enumerate 0 (body df))
                   else header # body df)\<rparr>])"

text \<open>
  Leaving the \<^verbatim>\<open>with pd.ExcelWriter(output, engine='xlsxwriter')\<close> block serialises the
  workbook into the buffer. The xlsx encoding belongs to xlsxwriter, not to this
  repository, so the serialiser is a parameter: \<open>xlsx k wb\<close> is what the \<open>k\<close>-th
  serialisation attempt of a script run returns for the workbook \<open>wb\<close>, the bytes of the
  file or the exception raised. \<^verbatim>\<open>to_excel\<close> makes the attempt number 0 and no other.
  What the returned bytes hold is the libraries' matter and is not modelled.
\<close>

type_synonym xlsxwriter = "nat \<Rightarrow> workbook \<Rightarrow> error + bytes"

definition to_excel :: "xlsxwriter \<Rightarrow> dataframe \<Rightarrow> error + bytes" where
  "to_excel xlsx df = xlsx 0 (df_to_excel df [] False ''Attendance'')"

subsection \<open>Widgets and the page\<close>

datatype status = Present | Absent | Remote | On_Leave

fun status_label :: "status \<Rightarrow> string" where
  "status_label Present = ''Present''"
| "status_label Absent = ''Absent''"
| "status_label Remote = ''Remote''"
| "status_label On_Leave = ''On Leave''"

text \<open>
  What one run of the script receives from outside: the contents of the two text boxes
  (empty when nothing was typed), the option picked in the select box and the date picked
  in the date picker (\<open>None\<close> when the user left the widget alone), whether the run was
  triggered by the submit button, the two readings of the clock (\<^verbatim>\<open>pd.Timestamp.now()\<close>
  on line 16 and on line 25), and the behaviour of the spreadsheet serialiser.
\<close>

record run_input =
  emp_id_text :: string
  emp_name_text :: string
  status_pick :: "status option"
  date_pick :: "date option"
  submitted :: bool
  now_form :: timestamp
  now_submit :: timestamp
  excel_writer :: xlsxwriter

text \<open>
  \<^verbatim>\<open>st.selectbox(label, options)\<close> returns the picked option, the first one when nothing
  was picked; \<^verbatim>\<open>st.date_input(label, value)\<close> returns the picked date, \<^verbatim>\<open>value\<close> when
  nothing was picked. The option list of the script is a non-empty literal.
\<close>

definition selectbox :: "'a list \<Rightarrow> 'a option \<Rightarrow> 'a" where
  "selectbox options pick = (case pick of None \<Rightarrow> hd options | Some x \<Rightarrow> x)"

definition date_input :: "date \<Rightarrow> date option \<Rightarrow> date" where
  "date_input today pick = (case pick of None \<Rightarrow> today | Some d \<Rightarrow> d)"

record download =
  button_label :: string
  file_data :: bytes
  file_name :: string
  mime :: string

datatype element =
    Title string
  | Form string
  | Success string
  | Subheader string
  | Dataframe dataframe
  | Download_Button download
  | Info string

text \<open>
  The outcome of a run: the elements rendered, in order, and the exception that ended
  the run, if one did.
\<close>

record page =
  elements :: "element list"
  raised :: "error option"

record session_state =
  attendance_data :: "pydict list option"

definition fresh_session :: session_state where
  "fresh_session = \<lparr>attendance_data = None\<rparr>"

subsection \<open>The script\<close>

text \<open>Lines 12 to 27: the form, and the append on submission.\<close>

definition attendance_form :: "run_input \<Rightarrow> pydict list \<Rightarrow> pydict list \<times> element list" where
  "attendance_form inp attendance =
     (let emp_id = emp_id_text inp;
          emp_name = emp_name_text inp;
          status = selectbox [''Present'', ''Absent'', ''Remote'', ''On Leave'']
                     (map_option status_label (status_pick inp));
          date = date_input (ts_date (now_form inp)) (date_pick inp)
      in if submitted inp
         then (attendance @
                 [[(''Date'', DateCell date),
                   (''Employee ID'', TextCell emp_id),
                   (''Employee Name'', TextCell emp_name),
                   (''Status'', TextCell status),
                   (''Timestamp'', TimestampCell (now_submit inp))]],
               [Form ''attendance_form'', Success ''Attendance recorded!''])
         else (attendance, [Form ''attendance_form'']))"

text \<open>The three captions start with an emoji, written here as its UTF-8 bytes.\<close>

definition title_caption :: string where
  "title_caption = [CHR 0xF0, CHR 0x9F, CHR 0x95, CHR 0x92] @ '' Employee Attendance Tracker''"

definition records_caption :: string where
  "records_caption = [CHR 0xF0, CHR 0x9F, CHR 0x93, CHR 0x8B] @ '' Attendance Records''"

definition download_caption :: string where
  "download_caption = [CHR 0xF0, CHR 0x9F, CHR 0x93, CHR 0xA5] @ '' Download Attendance as Excel''"

text \<open>
  One run of the whole script. Lines 6 and 7 create the empty list in a session that has
  none; the session keeps the list also when the run ends in an exception, since the
  append comes first. 
\<close>

definition script :: "run_input \<Rightarrow> session_state \<Rightarrow> page \<times> session_state" where
  "script inp st =
     (let attendance0 = (case attendance_data st of None \<Rightarrow> [] | Some a \<Rightarrow> a);
          (attendance, form_elements) = attendance_form inp attendance0;
          st' = st\<lparr>attendance_data := Some attendance\<rparr>;
          top = Title title_caption # form_elements
      in if attendance \<noteq> []
         then (let df = DataFrame attendance;
                   shown = top @ [Subheader records_caption, Dataframe df]
               in case to_excel (excel_writer inp) df of
                    Inl e \<Rightarrow> (\<lparr>elements = shown, raised = Some e\<rparr>, st')
                  | Inr excel_data \<Rightarrow>
                      (\<lparr>elements = shown @
                          [Download_Button
                             \<lparr>button_label = download_caption,
                              file_data = excel_data,
                              file_name = ''employee_attendance.xlsx'',
                              mime = ''application/vnd.openxmlformats-officedocument.spreadsheetml.sheet''\<rparr>],
                        raised = None\<rparr>, st'))
         else (\<lparr>elements = top @
                  [Info ''No attendance records yet. Please submit the form above.''],
                raised = None\<rparr>, st'))"

text \<open>A session: the script is rerun for every interaction, on the state the last run left.\<close>

fun session_runs :: "run_input list \<Rightarrow> session_state \<Rightarrow> page list \<times> session_state" where
  "session_runs [] st = ([], st)"
| "session_runs (inp # inps) st =
     (let (pg, st1) = script inp st;
          (pgs, st2) = session_runs inps st1
      in (pg # pgs, st2))"

definition attendance_log :: "session_state \<Rightarrow> pydict list" where
  "attendance_log st = (case attendance_data st of None \<Rightarrow> [] | Some a \<Rightarrow> a)"

text \<open>
  The record a submission describes: the four field values of the form as the widgets
  return them, and the clock reading taken at the submission.
\<close>

definition submitted_record :: "run_input \<Rightarrow> pydict" where
  "submitted_record inp =
     [(''Date'', DateCell (date_input (ts_date (now_form inp)) (date_pick inp))),
      (''Employee ID'', TextCell (emp_id_text inp)),
      (''Employee Name'', TextCell (emp_name_text inp)),
      (''Status'', TextCell (case status_pick inp of None \<Rightarrow> ''Present'' | Some s \<Rightarrow> status_label s)),
      (''Timestamp'', TimestampCell (now_submit inp))]"

section \<open>The display showcase (5_Display_And_Style_Data.py)\<close>

text \<open>
  Of this script the generation of the dataset (lines 13 to 52) and the editable grid
  with its recomputation (lines 153 to 174) are modelled. Everything else renders the
  dataset and changes nothing.
\<close>

subsection \<open>numpy, floats and the machine\<close>

text \<open>
  The random generator and the float arithmetic are numpy's and the machine's, so they
  are parameters of the model. \<open>'g\<close> is the state of a generator, \<open>'f\<close> the type of
  float64 values:
  \<^item> \<open>np_seed s\<close> is the generator \<^verbatim>\<open>default_rng\<close> makes from the integer seed \<open>s\<close>;
  \<^item> \<open>np_integers g low high\<close> is \<^verbatim>\<open>rng.integers(low, high)\<close>: the number drawn and the
    state after the draw;
  \<^item> \<open>np_choice_float g xs\<close> and \<open>np_choice_bool g xs\<close> are \<^verbatim>\<open>rng.choice(xs)\<close>;
  \<^item> \<open>np_float m k\<close> is the float64 nearest to \<open>m / 10 ^ k\<close>: the value of a decimal
    literal, and with \<open>k = 0\<close> the conversion \<^verbatim>\<open>float(m)\<close> of an integer;
  \<^item> \<open>np_mul\<close> is the float64 product, \<open>np_nan\<close> the value NaN.
\<close>

record ('g, 'f) numpy =
  np_seed :: "nat \<Rightarrow> 'g"
  np_integers :: "'g \<Rightarrow> int \<Rightarrow> int \<Rightarrow> int \<times> 'g"
  np_choice_float :: "'g \<Rightarrow> 'f list \<Rightarrow> 'f \<times> 'g"
  np_choice_bool :: "'g \<Rightarrow> bool list \<Rightarrow> bool \<times> 'g"
  np_float :: "int \<Rightarrow> nat \<Rightarrow> 'f"
  np_mul :: "'f \<Rightarrow> 'f \<Rightarrow> 'f"
  np_nan :: "'f"

text \<open>
  What an execution of the script reads from the machine it runs on: the calendar date
  (\<^verbatim>\<open>date.today()\<close>) and the entropy of the operating system, from which
  \<^verbatim>\<open>default_rng\<close> seeds a generator when it is given no seed.
\<close>

record machine =
  today :: date
  os_entropy :: nat

definition default_rng :: "('g, 'f) numpy \<Rightarrow> machine \<Rightarrow> nat option \<Rightarrow> 'g" where
  "default_rng np m seed = np_seed np (case seed of None \<Rightarrow> os_entropy m | Some s \<Rightarrow> s)"

text \<open>
  \<^verbatim>\<open>d + timedelta(days=k)\<close>. A \<^verbatim>\<open>timedelta\<close> holds at most 999999999 days, a
  \<^verbatim>\<open>date\<close> lies between 0001-01-01 (ordinal 1) and 9999-12-31 (ordinal 3652059);
  Python raises \<^verbatim>\<open>OverflowError\<close> outside.
\<close>

definition date_plus_days :: "date \<Rightarrow> int \<Rightarrow> error + date" where
  "date_plus_days d k =
     (if \<bar>k\<bar> > 999999999 then Inl OverflowError
      else if 1 \<le> toordinal d + k \<and> toordinal d + k \<le> 3652059
           then Inr (Date (toordinal d + k))
           else Inl OverflowError)"

text \<open>\<^verbatim>\<open>str(i)\<close> of an integer, as the f-string of line 35 formats it.\<close>

function str_nat :: "nat \<Rightarrow> string" where
  "str_nat n =
     (if n < 10 then [''0123456789'' ! n]
      else str_nat (n div 10) @ [''0123456789'' ! (n mod 10)])"
  by pat_completeness auto
termination
  by (relation "measure id") auto

declare str_nat.simps [simp del]

definition str_int :: "int \<Rightarrow> string" where
  "str_int i = (if i < 0 then CHR ''-'' # str_nat (nat (- i)) else str_nat (nat i))"

subsection \<open>The dataset\<close>

definition products :: "(string \<times> string) list" where
  "products =
     [(''Engine Oil'', ''AutoCare''),
      (''Air Filter'', ''AutoCare''),
      (''Spark Plug'', ''AutoCare''),
      (''Brake Pads'', ''AutoCare''),
      (''Coolant'', ''AutoCare''),
      (''Wiper Blade'', ''AutoCare''),
      (''GPS Tracker'', ''Electronics''),
      (''Phone Mount'', ''Electronics''),
      (''Dash Cam'', ''Electronics''),
      (''Tyre Shine'', ''CarCare'')]"

type_synonym 'f product_tuple =
  "int \<times> string \<times> string \<times> int \<times> 'f \<times> 'f \<times> bool \<times> date \<times> string"

text \<open>
  The loop of lines 29 to 36 over \<^verbatim>\<open>enumerate(products, start=1)\<close>: \<open>i\<close> is the
  counter, \<open>rng\<close> the state of the generator, threaded through the five draws of every
  round. The date addition is the one step of a round that can raise.
\<close>

fun product_rows ::
  "('g, 'f) numpy \<Rightarrow> date \<Rightarrow> 'g \<Rightarrow> int \<Rightarrow> (string \<times> string) list \<Rightarrow>
   error + 'f product_tuple list" where
  "product_rows np start rng i [] = Inr []"
| "product_rows np start rng i ((name, cat) # rest) =
     (let (units, rng1) = np_integers np rng 50 400;
          (p, rng2) = np_integers np rng1 150 3500;
          price = np_float np p 0;
          (rating, rng3) = np_choice_float np rng2
                             (map (\<lambda>m. np_float np m 1) [32, 38, 40, 43, 46, 48, 50]);
          (in_stock, rng4) = np_choice_bool np rng3 [True, True, True, False];
          (k, rng5) = np_integers np rng4 0 120
      in case date_plus_days start k of
           Inl e \<Rightarrow> Inl e
         | Inr added_on \<Rightarrow>
             (let url = ''https://example.com/product/'' @ str_int i
              in case product_rows np start rng5 (i + 1) rest of
                   Inl e \<Rightarrow> Inl e
                 | Inr rows \<Rightarrow>
                     Inr ((i, name, cat, units, price, rating, in_stock, added_on, url) # rows)))"

record 'f product_row =
  p_id :: int
  p_product :: string
  p_category :: string
  p_units :: int
  p_price :: 'f
  p_rating :: 'f
  p_in_stock :: bool
  p_added_on :: date
  p_url :: string
  p_revenue :: 'f

text \<open>
  Lines 38 to 52: the frame of the tuples, and its \<^verbatim>\<open>revenue\<close> column, the product of
  the integer column \<^verbatim>\<open>units\<close> (converted to float64) and the float column \<^verbatim>\<open>price\<close>.
\<close>

definition product_frame :: "('g, 'f) numpy \<Rightarrow> 'f product_tuple list \<Rightarrow> 'f product_row list" where
  "product_frame np rows =
     map (\<lambda>(i, name, cat, units, price, rating, in_stock, added_on, url).
            \<lparr>p_id = i, p_product = name, p_category = cat, p_units = units, p_price = price,
             p_rating = rating, p_in_stock = in_stock, p_added_on = added_on, p_url = url,
             p_revenue = np_mul np (np_float np units 0) price\<rparr>) rows"

text \<open>Lines 13 to 52 as a whole; the seed is the literal 42.\<close>

definition make_df :: "('g, 'f) numpy \<Rightarrow> machine \<Rightarrow> error + 'f product_row list" where
  "make_df np m =
     (let rng = default_rng np m (Some 42)
      in case date_plus_days (today m) (- 120) of
           Inl e \<Rightarrow> Inl e
         | Inr start \<Rightarrow>
             (case product_rows np start rng 1 products of
                Inl e \<Rightarrow> Inl e
              | Inr rows \<Rightarrow> Inr (product_frame np rows)))"

subsection \<open>The editable grid and the recomputation\<close>

text \<open>
  \<^verbatim>\<open>df[["id", "product", "units", "price", "in_stock"]]\<close>, the frame the editor shows.
\<close>

record 'f editor_row =
  e_id :: int
  e_product :: string
  e_units :: "int option"
  e_price :: 'f
  e_in_stock :: bool

definition editor_view :: "'f product_row list \<Rightarrow> 'f editor_row list" where
  "editor_view df =
     map (\<lambda>r. \<lparr>e_id = p_id r, e_product = p_product r, e_units = Some (p_units r),
               e_price = p_price r, e_in_stock = p_in_stock r\<rparr>) df"

text \<open>
  \<^verbatim>\<open>st.data_editor\<close> with a fixed number of rows and the columns \<^verbatim>\<open>id\<close>, \<^verbatim>\<open>product\<close> and
  \<^verbatim>\<open>price\<close> disabled returns the frame it was given with the user's edits applied. The
  edits are kept per row position; only a cell of \<^verbatim>\<open>units\<close> or of \<^verbatim>\<open>in_stock\<close> can
  carry one. The \<^verbatim>\<open>units\<close> column is not configured as required, so a unit cell can be
  given a number or be cleared; a cleared cell is a missing value (\<open>None\<close> here, NaN in
  the frame). The column holds int64 values: a number outside that range cannot be stored
  and the editor raises. (The bound \<^verbatim>\<open>min_value=0\<close> narrows the numbers the grid lets a
  user type; the model admits every int64 value.)
\<close>

datatype units_entry = Entered int | Cleared

record cell_edits =
  units_edit :: "units_entry option"
  in_stock_edit :: "bool option"

type_synonym grid_edits = "nat \<rightharpoonup> cell_edits"

definition in_int64 :: "int \<Rightarrow> bool" where
  "in_int64 v = (- 9223372036854775808 \<le> v \<and> v \<le> 9223372036854775807)"

definition edit_row :: "'f editor_row \<Rightarrow> cell_edits \<Rightarrow> error + 'f editor_row" where
  "edit_row r c =
     (let stock = (case in_stock_edit c of None \<Rightarrow> e_in_stock r | Some b \<Rightarrow> b)
      in case units_edit c of
           None \<Rightarrow> Inr (r\<lparr>e_in_stock := stock\<rparr>)
         | Some Cleared \<Rightarrow> Inr (r\<lparr>e_units := None, e_in_stock := stock\<rparr>)
         | Some (Entered v) \<Rightarrow>
             if in_int64 v then Inr (r\<lparr>e_units := Some v, e_in_stock := stock\<rparr>)
             else Inl OverflowError)"

text \<open>The rows from position \<open>i\<close> on, each with the edits of its position applied.\<close>

fun editor_rows :: "grid_edits \<Rightarrow> nat \<Rightarrow> 'f editor_row list \<Rightarrow> error + 'f editor_row list" where
  "editor_rows edits i [] = Inr []"
| "editor_rows edits i (r # rs) =
     (case (case edits i of None \<Rightarrow> Inr r | Some c \<Rightarrow> edit_row r c) of
        Inl e \<Rightarrow> Inl e
      | Inr r' \<Rightarrow>
          (case editor_rows edits (Suc i) rs of
             Inl e \<Rightarrow> Inl e
           | Inr rs' \<Rightarrow> Inr (r' # rs')))"

definition data_editor :: "'f editor_row list \<Rightarrow> grid_edits \<Rightarrow> error + 'f editor_row list" where
  "data_editor shown edits = editor_rows edits 0 shown"

text \<open>\<^verbatim>\<open>edited[["id", "units", "in_stock"]]\<close>, the right side of the merge.\<close>

record edited_columns =
  k_id :: int
  k_units :: "int option"
  k_in_stock :: bool

definition key_columns :: "'f editor_row list \<Rightarrow> edited_columns list" where
  "key_columns edited =
     map (\<lambda>r. \<lparr>k_id = e_id r, k_units = e_units r, k_in_stock = e_in_stock r\<rparr>) edited"

text \<open>\<^verbatim>\<open>df.drop(columns=["units", "in_stock"])\<close>, the left side of the merge.\<close>

record 'f base_row =
  b_id :: int
  b_product :: string
  b_category :: string
  b_price :: 'f
  b_rating :: 'f
  b_added_on :: date
  b_url :: string
  b_revenue :: 'f

definition drop_columns :: "'f product_row list \<Rightarrow> 'f base_row list" where
  "drop_columns df =
     map (\<lambda>r. \<lparr>b_id = p_id r, b_product = p_product r, b_category = p_category r,
               b_price = p_price r, b_rating = p_rating r, b_added_on = p_added_on r,
               b_url = p_url r, b_revenue = p_revenue r\<rparr>) df"

text \<open>
  \<^verbatim>\<open>left.merge(right, on="id", how="left")\<close>: the rows of the left frame in their order,
  each joined with every right row of the same \<^verbatim>\<open>id\<close>, in the order of the right frame;
  a left row that no right row matches is kept once, with missing values (\<open>None\<close>) in the
  columns of the right frame. A unit count that is missing in the right frame stays missing.
\<close>

record 'f merged_row =
  m_id :: int
  m_product :: string
  m_category :: string
  m_price :: 'f
  m_rating :: 'f
  m_added_on :: date
  m_url :: string
  m_revenue :: 'f
  m_units :: "int option"
  m_in_stock :: "bool option"

definition joined :: "'f base_row \<Rightarrow> edited_columns option \<Rightarrow> 'f merged_row" where
  "joined l r =
     \<lparr>m_id = b_id l, m_product = b_product l, m_category = b_category l,
      m_price = b_price l, m_rating = b_rating l, m_added_on = b_added_on l,
      m_url = b_url l, m_revenue = b_revenue l,
      m_units = (case r of None \<Rightarrow> None | Some x \<Rightarrow> k_units x),
      m_in_stock = map_option k_in_stock r\<rparr>"

definition merge_left :: "'f base_row list \<Rightarrow> edited_columns list \<Rightarrow> 'f merged_row list" where
  "merge_left left right =
     concat (map (\<lambda>l. case filter (\<lambda>r. k_id r = b_id l) right of
                        [] \<Rightarrow> [joined l None]
                      | matches \<Rightarrow> map (\<lambda>r. joined l (Some r)) matches) left)"

text \<open>
  Line 174, \<^verbatim>\<open>merged["revenue"] = merged["units"] * merged["price"]\<close>: the product of the
  unit count (converted to float64) and the price; NaN where the unit count is missing.
\<close>

definition recompute_revenue :: "('g, 'f) numpy \<Rightarrow> 'f merged_row list \<Rightarrow> 'f merged_row list" where
  "recompute_revenue np merged =
     map (\<lambda>r. r\<lparr>m_revenue := (case m_units r of
                                 None \<Rightarrow> np_nan np
                               | Some u \<Rightarrow> np_mul np (np_float np u 0) (m_price r))\<rparr>) merged"

text \<open>
  Lines 153 to 174: the frame the editor returns, and the recomputed frame. An exception of
  the editor ends the script before the merge.
\<close>

definition editable_grid ::
  "('g, 'f) numpy \<Rightarrow> 'f product_row list \<Rightarrow> grid_edits \<Rightarrow>
   error + 'f editor_row list \<times> 'f merged_row list" where
  "editable_grid np df edits =
     (case data_editor (editor_view df) edits of
        Inl e \<Rightarrow> Inl e
      | Inr edited \<Rightarrow>
          (let merged = merge_left (drop_columns df) (key_columns edited)
           in Inr (edited, recompute_revenue np merged)))"

text \<open>
  The row of the recomputed frame that a row of the dataset and the row of the same
  identifier in the edited frame give.
\<close>

definition merged_of :: "('g, 'f) numpy \<Rightarrow> 'f product_row \<Rightarrow> 'f editor_row \<Rightarrow> 'f merged_row" where
  "merged_of np r e =
     \<lparr>m_id = p_id r, m_product = p_product r, m_category = p_category r,
      m_price = p_price r, m_rating = p_rating r, m_added_on = p_added_on r,
      m_url = p_url r,
      m_revenue = (case e_units e of
                     None \<Rightarrow> np_nan np
                   | Some u \<Rightarrow> np_mul np (np_float np u 0) (p_price r)),
      m_units = e_units e, m_in_stock = Some (e_in_stock e)\<rparr>"

subsection \<open>What a page offers\<close>

fun is_download :: "element \<Rightarrow> bool" where
  "is_download (Download_Button d) = True"
| "is_download _ = False"

fun is_table :: "element \<Rightarrow> bool" where
  "is_table (Dataframe d) = True"
| "is_table _ = False"

fun is_info :: "element \<Rightarrow> bool" where
  "is_info (Info d) = True"
| "is_info _ = False"

definition offers_export :: "page \<Rightarrow> bool" where
  "offers_export pg = list_ex is_download (elements pg)"

definition shows_table :: "page \<Rightarrow> bool" where
  "shows_table pg = list_ex is_table (elements pg)"

definition shows_info :: "page \<Rightarrow> bool" where
  "shows_info pg = list_ex is_info (elements pg)"


subsection \<open>Concrete runs\<close>

text \<open>
  Serialisers to run the script with: one that returns an empty file, one that returns a
  byte per sheet holding the number of its grid rows, one that always raises, and one
  whose first attempt raises while every later attempt would return a file.
\<close>

definition no_writer :: xlsxwriter where
  "no_writer k wb = Inr []"


definition failing_writer :: xlsxwriter where
  "failing_writer k wb = Inl (ExcelError ''serialisation failed'')"

definition flaky_writer :: xlsxwriter where
  "flaky_writer k wb =
     (if k = 0 then Inl (ExcelError ''first attempt failed'') else Inr [0x50, 0x4B])"

text \<open>
  Submissions for employee E1, Alice, on 2024-01-10 (ordinal 738895); a submission of the
  form with every field left as it was rendered; and a rerun that submits nothing.
\<close>

definition alice_run :: "status \<Rightarrow> timestamp \<Rightarrow> xlsxwriter \<Rightarrow> run_input" where
  "alice_run s t w =
     \<lparr>emp_id_text = ''E1'', emp_name_text = ''Alice'', status_pick = Some s,
      date_pick = Some (Date 738895), submitted = True,
      now_form = t, now_submit = t, excel_writer = w\<rparr>"

definition blank_run :: "timestamp \<Rightarrow> timestamp \<Rightarrow> run_input" where
  "blank_run t1 t2 =
     \<lparr>emp_id_text = [], emp_name_text = [], status_pick = None,
      date_pick = None, submitted = True,
      now_form = t1, now_submit = t2, excel_writer = no_writer\<rparr>"

definition untouched_run :: run_input where
  "untouched_run =
     \<lparr>emp_id_text = ''E7'', emp_name_text = ''Bob'', status_pick = None,
      date_pick = None, submitted = True,
      now_form = Timestamp 1704931199000000000, now_submit = Timestamp 1704931201000000000,
      excel_writer = no_writer\<rparr>"

definition idle_run :: "xlsxwriter \<Rightarrow> run_input" where
  "idle_run w =
     \<lparr>emp_id_text = [], emp_name_text = [], status_pick = None,
      date_pick = None, submitted = False,
      now_form = Timestamp 1704880800000000000, now_submit = Timestamp 1704880800000000000,
      excel_writer = w\<rparr>"

subsection \<open>A concrete numpy and concrete tables\<close>

text \<open>
  An instance of the parameters to run the model with: floats are exact rationals, with
  \<open>None\<close> as NaN; the generator is a linear congruential one over its state, a natural
  number.
\<close>

definition lcg_next :: "nat \<Rightarrow> nat" where
  "lcg_next g = (75 * g + 74) mod 65537"

definition exact_np :: "(nat, rat option) numpy" where
  "exact_np =
     \<lparr>np_seed = (\<lambda>s. s),
      np_integers = (\<lambda>g low high. (low + int g mod (high - low), lcg_next g)),
      np_choice_float = (\<lambda>g xs. (case xs of [] \<Rightarrow> None | _ \<Rightarrow> xs ! (g mod length xs), lcg_next g)),
      np_choice_bool = (\<lambda>g xs. (case xs of [] \<Rightarrow> False | _ \<Rightarrow> xs ! (g mod length xs), lcg_next g)),
      np_float = (\<lambda>m k. Some (of_int m / 10 ^ k)),
      np_mul = (\<lambda>a b. case a of None \<Rightarrow> None
                        | Some x \<Rightarrow> (case b of None \<Rightarrow> None | Some y \<Rightarrow> Some (x * y))),
      np_nan = None\<rparr>"

text \<open>
  A table of three products, the first with 100 units at a unit price of 20; the edit of
  the unit count of its first row to 150; and that edit together with the clearing of the
  unit cell of the second row.
\<close>

definition three_products :: "rat option product_tuple list" where
  "three_products =
     [(1, ''Engine Oil'', ''AutoCare'', 100, Some 20, Some (16 / 5), True, Date 738800,
       ''https://example.com/product/1''),
      (2, ''Air Filter'', ''AutoCare'', 60, Some 450, Some 4, False, Date 738810,
       ''https://example.com/product/2''),
      (3, ''Dash Cam'', ''Electronics'', 75, Some 1999, Some 5, True, Date 738820,
       ''https://example.com/product/3'')]"

definition units_to_150 :: grid_edits where
  "units_to_150 = [0 \<mapsto> \<lparr>units_edit = Some (Entered 150), in_stock_edit = None\<rparr>]"

definition units_to_150_and_cleared :: grid_edits where
  "units_to_150_and_cleared =
     [0 \<mapsto> \<lparr>units_edit = Some (Entered 150), in_stock_edit = None\<rparr>,
      1 \<mapsto> \<lparr>units_edit = Some Cleared, in_stock_edit = None\<rparr>]"

text \<open>
  Two machines on 2024-01-10 that differ in their entropy, and edits of the generated
  table: 7 units in the row at position 1, out of stock in the row at position 4.
\<close>

definition machine_a :: machine where
  "machine_a = \<lparr>today = Date 738895, os_entropy = 1\<rparr>"

definition machine_b :: machine where
  "machine_b = \<lparr>today = Date 738895, os_entropy = 2\<rparr>"

definition two_edits :: grid_edits where
  "two_edits = [1 \<mapsto> \<lparr>units_edit = Some (Entered 7), in_stock_edit = None\<rparr>,
                4 \<mapsto> \<lparr>units_edit = None, in_stock_edit = Some False\<rparr>]"

section \<open>Properties of the attendance recorder\<close>

subsection \<open>What one run does to the log and to the page\<close>

lemma attendance_form_log:
  "fst (attendance_form inp a) = a @ (if submitted inp then [submitted_record inp] else [])"
  by (simp add: attendance_form_def submitted_record_def selectbox_def Let_def
      split: option.splits)

lemma script_log:
  "attendance_log (snd (script inp st)) =
     attendance_log st @ (if submitted inp then [submitted_record inp] else [])"
proof -
  obtain a els where f: "attendance_form inp (attendance_log st) = (a, els)"
    by (cases "attendance_form inp (attendance_log st)")
  have a: "a = attendance_log st @ (if submitted inp then [submitted_record inp] else [])"
    using attendance_form_log [of inp "attendance_log st"] f by simp
  have "attendance_log (snd (script inp st)) = a"
    using f by (simp add: script_def attendance_log_def Let_def split: sum.splits)
  with a show ?thesis by simp
qed

lemma session_runs_log:
  "attendance_log (snd (session_runs inps st)) =
     attendance_log st @ map submitted_record (filter submitted inps)"
proof (induction inps arbitrary: st)
  case Nil
  show ?case by simp
next
  case (Cons inp inps)
  have "snd (session_runs (inp # inps) st) = snd (session_runs inps (snd (script inp st)))"
    by (simp add: split_def Let_def)
  then show ?case
    using Cons.IH [of "snd (script inp st)"] script_log [of inp st] by simp
qed

lemma script_state:
  "snd (script inp st) =
     st\<lparr>attendance_data :=
          Some (attendance_log st @ (if submitted inp then [submitted_record inp] else []))\<rparr>"
proof -
  obtain a els where f: "attendance_form inp (attendance_log st) = (a, els)"
    by (cases "attendance_form inp (attendance_log st)")
  have a: "a = attendance_log st @ (if submitted inp then [submitted_record inp] else [])"
    using attendance_form_log [of inp "attendance_log st"] f by simp
  have "snd (script inp st) = st\<lparr>attendance_data := Some a\<rparr>"
    using f by (simp add: script_def attendance_log_def Let_def split: sum.splits)
  with a show ?thesis by simp
qed

lemma attendance_form_elements:
  "snd (attendance_form inp a) =
     (if submitted inp then [Form ''attendance_form'', Success ''Attendance recorded!'']
      else [Form ''attendance_form''])"
  by (simp add: attendance_form_def Let_def)

lemma script_page_empty:
  assumes "attendance_log (snd (script inp st)) = []"
  shows "fst (script inp st) =
           \<lparr>elements = [Title title_caption, Form ''attendance_form'',
                        Info ''No attendance records yet. Please submit the form above.''],
            raised = None\<rparr>"
proof -
  from assms have ns: "\<not> submitted inp" and e: "attendance_log st = []"
    by (auto simp: script_log split: if_splits)
  obtain a els where f: "attendance_form inp (attendance_log st) = (a, els)"
    by (cases "attendance_form inp (attendance_log st)")
  have a: "a = []"
    using attendance_form_log [of inp "attendance_log st"] f ns e by simp
  have els: "els = [Form ''attendance_form'']"
    using attendance_form_elements [of inp "attendance_log st"] f ns by simp
  show ?thesis
    using f a els by (simp add: script_def attendance_log_def Let_def)
qed

lemma script_page_nonempty:
  assumes "attendance_log (snd (script inp st)) \<noteq> []"
  shows "fst (script inp st) =
           (let shown = Title title_caption # snd (attendance_form inp (attendance_log st)) @
                  [Subheader records_caption,
                   Dataframe (DataFrame (attendance_log (snd (script inp st))))]
            in case to_excel (excel_writer inp) (DataFrame (attendance_log (snd (script inp st)))) of
                 Inl e \<Rightarrow> \<lparr>elements = shown, raised = Some e\<rparr>
               | Inr excel_data \<Rightarrow>
                   \<lparr>elements = shown @
                      [Download_Button
                         \<lparr>button_label = download_caption,
                          file_data = excel_data,
                          file_name = ''employee_attendance.xlsx'',
                          mime = ''application/vnd.openxmlformats-officedocument.spreadsheetml.sheet''\<rparr>],
                    raised = None\<rparr>)"
proof -
  obtain a els where f: "attendance_form inp (attendance_log st) = (a, els)"
    by (cases "attendance_form inp (attendance_log st)")
  have a: "a = attendance_log st @ (if submitted inp then [submitted_record inp] else [])"
    using attendance_form_log [of inp "attendance_log st"] f by simp
  have l: "attendance_log (snd (script inp st)) = a"
    using a by (simp add: script_log)
  with assms have ne: "a \<noteq> []" by simp
  show ?thesis
    unfolding l using f ne
    by (simp add: script_def attendance_log_def Let_def split: sum.splits)
qed


subsection \<open>The data frame of a log of submissions\<close>





lemma session_log_fresh:
  "attendance_log (snd (session_runs inps fresh_session)) =
     map submitted_record (filter submitted inps)"
  using session_runs_log [of inps fresh_session]
  by (simp add: attendance_log_def fresh_session_def)


subsection \<open>The claims\<close>

text \<open>
  C1. After any sequence of runs of a session that started fresh, the attendance log
  holds exactly one record per submission, in the order of the submissions: no record is
  dropped, merged or overwritten, whatever its contents. With \<open>N\<close> submissions the log has
  \<open>N\<close> records (runs that submit nothing, such as the rerun a download click causes,
  add none).
\<close>

theorem log_holds_every_submission_in_order:
  "attendance_log (snd (session_runs inps fresh_session)) =
     map submitted_record (filter submitted inps) \<and>
   length (attendance_log (snd (session_runs inps fresh_session))) =
     length (filter submitted inps)"
  by (simp add: session_log_fresh)

text \<open>
  The scenario of C1: Alice (E1) on 2024-01-10 as Present, then as Remote. Both records
  are kept, in this order, and the log has two records.
\<close>

theorem same_employee_same_date_twice:
  "attendance_log (snd (session_runs
       [alice_run Present (Timestamp 1704880800000000000) no_writer,
        alice_run Remote (Timestamp 1704880860000000000) no_writer] fresh_session)) =
     [[(''Date'', DateCell (Date 738895)), (''Employee ID'', TextCell ''E1''),
       (''Employee Name'', TextCell ''Alice''), (''Status'', TextCell ''Present''),
       (''Timestamp'', TimestampCell (Timestamp 1704880800000000000))],
      [(''Date'', DateCell (Date 738895)), (''Employee ID'', TextCell ''E1''),
       (''Employee Name'', TextCell ''Alice''), (''Status'', TextCell ''Remote''),
       (''Timestamp'', TimestampCell (Timestamp 1704880860000000000))]] \<and>
   length (attendance_log (snd (session_runs
       [alice_run Present (Timestamp 1704880800000000000) no_writer,
        alice_run Remote (Timestamp 1704880860000000000) no_writer] fresh_session))) = 2"
  using log_holds_every_submission_in_order
    [of "[alice_run Present (Timestamp 1704880800000000000) no_writer,
          alice_run Remote (Timestamp 1704880860000000000) no_writer]"]
  by (simp add: alice_run_def submitted_record_def date_input_def)

text \<open>
  C7. A submission, whatever the four field values are (empty texts included), makes the
  form step return normally with the log grown by exactly one record at its end: the
  record carries the field values unvalidated and the clock reading taken at the
  submission. The session state changes in nothing but the log, and this holds whether or
  not the later export of the same run fails.
\<close>

theorem submit_appends_exactly_one_record:
  assumes "submitted inp"
  shows "attendance_form inp a =
           (a @ [submitted_record inp],
            [Form ''attendance_form'', Success ''Attendance recorded!'']) \<and>
         snd (script inp st) =
           st\<lparr>attendance_data := Some (attendance_log st @ [submitted_record inp])\<rparr> \<and>
         map_of (submitted_record inp) ''Employee ID'' = Some (TextCell (emp_id_text inp)) \<and>
         map_of (submitted_record inp) ''Employee Name'' = Some (TextCell (emp_name_text inp)) \<and>
         map_of (submitted_record inp) ''Timestamp'' = Some (TimestampCell (now_submit inp))"
proof -
  have "attendance_form inp a =
          (fst (attendance_form inp a), snd (attendance_form inp a))"
    by simp
  then have form: "attendance_form inp a =
      (a @ [submitted_record inp], [Form ''attendance_form'', Success ''Attendance recorded!''])"
    using assms by (simp only: attendance_form_log attendance_form_elements if_True)
  have state: "snd (script inp st) =
      st\<lparr>attendance_data := Some (attendance_log st @ [submitted_record inp])\<rparr>"
    using assms by (simp add: script_state)
  have fields:
    "map_of (submitted_record inp) ''Employee ID'' = Some (TextCell (emp_id_text inp))"
    "map_of (submitted_record inp) ''Employee Name'' = Some (TextCell (emp_name_text inp))"
    "map_of (submitted_record inp) ''Timestamp'' = Some (TimestampCell (now_submit inp))"
    by (simp_all add: submitted_record_def)
  from form state fields show ?thesis by simp
qed

text \<open>A submission with empty identifier and empty name on a fresh session.\<close>

theorem blank_submission_accepted:
  "attendance_form (blank_run (Timestamp 1704880800000000000) (Timestamp 1704880800000000500)) [] =
     ([[(''Date'', DateCell (Date 738895)), (''Employee ID'', TextCell []),
        (''Employee Name'', TextCell []), (''Status'', TextCell ''Present''),
        (''Timestamp'', TimestampCell (Timestamp 1704880800000000500))]],
      [Form ''attendance_form'', Success ''Attendance recorded!'']) \<and>
   snd (script (blank_run (Timestamp 1704880800000000000) (Timestamp 1704880800000000500))
          fresh_session) =
     \<lparr>attendance_data = Some
        [[(''Date'', DateCell (Date 738895)), (''Employee ID'', TextCell []),
          (''Employee Name'', TextCell []), (''Status'', TextCell ''Present''),
          (''Timestamp'', TimestampCell (Timestamp 1704880800000000500))]]\<rparr>"
  using submit_appends_exactly_one_record
    [of "blank_run (Timestamp 1704880800000000000) (Timestamp 1704880800000000500)"
        "[]" fresh_session]
  by (simp add: blank_run_def submitted_record_def date_input_def ts_date_def
      attendance_log_def fresh_session_def)


text \<open>
  C10. The date widget defaults to the calendar date of the clock reading taken when the
  form is rendered, the status widget to its first option, \<open>Present\<close>: a submission
  that touches neither records that date and the status \<open>Present\<close>.
\<close>

theorem untouched_form_records_today_and_present:
  assumes "submitted inp" and "date_pick inp = None" and "status_pick inp = None"
  shows "date_input (ts_date (now_form inp)) (date_pick inp) = ts_date (now_form inp) \<and>
         selectbox [''Present'', ''Absent'', ''Remote'', ''On Leave'']
           (map_option status_label (status_pick inp)) = ''Present'' \<and>
         fst (attendance_form inp a) =
           a @ [[(''Date'', DateCell (ts_date (now_form inp))),
                 (''Employee ID'', TextCell (emp_id_text inp)),
                 (''Employee Name'', TextCell (emp_name_text inp)),
                 (''Status'', TextCell ''Present''),
                 (''Timestamp'', TimestampCell (now_submit inp))]]"
  using assms
  by (simp add: attendance_form_def date_input_def selectbox_def Let_def)

text \<open>
  A form rendered at 23:59:59 on 2024-01-10 and submitted untouched: the date is that of
  the rendering, the timestamp is the later reading.
\<close>

theorem untouched_form_just_before_midnight:
  "fst (attendance_form untouched_run []) =
     [[(''Date'', DateCell (Date 738895)),
       (''Employee ID'', TextCell ''E7''),
       (''Employee Name'', TextCell ''Bob''),
       (''Status'', TextCell ''Present''),
       (''Timestamp'', TimestampCell (Timestamp 1704931201000000000))]]"
  using untouched_form_records_today_and_present [of untouched_run "[]"]
  by (simp add: untouched_run_def ts_date_def)

text \<open>
  The download button is rendered exactly when the log is non-empty and the serialiser
  returned a file.
\<close>

lemma offers_export_script:
  "offers_export (fst (script inp st)) \<longleftrightarrow>
     attendance_log (snd (script inp st)) \<noteq> [] \<and> raised (fst (script inp st)) = None"
proof (cases "attendance_log (snd (script inp st)) = []")
  case True
  then show ?thesis
    by (simp add: script_page_empty offers_export_def)
next
  case False
  then show ?thesis
    by (simp add: script_page_nonempty offers_export_def attendance_form_elements Let_def
        split: sum.splits)
qed

text \<open>
  C2, as amended. For every session state and every run: the export is offered if and
  only if the attendance sequence is non-empty and its serialisation did not fail. With
  no record the page shows the informational message, no table and no export control,
  and no export is attempted (the run raises nothing); with a record it shows the table
  and no informational message.
\<close>

theorem export_offered_iff_records_and_serialised:
  "(offers_export (fst (script inp st)) \<longleftrightarrow>
      attendance_log (snd (script inp st)) \<noteq> [] \<and> raised (fst (script inp st)) = None) \<and>
   (attendance_log (snd (script inp st)) = [] \<longrightarrow>
      shows_info (fst (script inp st)) \<and> \<not> shows_table (fst (script inp st)) \<and>
      \<not> offers_export (fst (script inp st)) \<and> raised (fst (script inp st)) = None) \<and>
   (attendance_log (snd (script inp st)) \<noteq> [] \<longrightarrow>
      shows_table (fst (script inp st)) \<and> \<not> shows_info (fst (script inp st)))"
proof -
  have empty: "attendance_log (snd (script inp st)) = [] \<longrightarrow>
      shows_info (fst (script inp st)) \<and> \<not> shows_table (fst (script inp st)) \<and>
      \<not> offers_export (fst (script inp st)) \<and> raised (fst (script inp st)) = None"
    by (simp add: script_page_empty shows_info_def shows_table_def offers_export_def)
  have nonempty: "attendance_log (snd (script inp st)) \<noteq> [] \<longrightarrow>
      shows_table (fst (script inp st)) \<and> \<not> shows_info (fst (script inp st))"
    by (simp add: script_page_nonempty shows_info_def shows_table_def attendance_form_elements
        Let_def split: sum.splits)
  from offers_export_script [of inp st] empty nonempty show ?thesis by blast
qed

text \<open>A fresh session that submits nothing, and one that submits a record.\<close>

theorem export_control_on_empty_and_on_one_record:
  "\<not> offers_export (fst (script (idle_run no_writer) fresh_session)) \<and>
   shows_info (fst (script (idle_run no_writer) fresh_session)) \<and>
   \<not> shows_table (fst (script (idle_run no_writer) fresh_session)) \<and>
   offers_export (fst (script (alice_run Absent (Timestamp 1704880800000000000) no_writer)
                         fresh_session))"
proof -
  have e: "attendance_log (snd (script (idle_run no_writer) fresh_session)) = []"
    by (simp only: script_log) (simp add: idle_run_def attendance_log_def fresh_session_def)
  have n: "attendance_log (snd (script (alice_run Absent (Timestamp 1704880800000000000) no_writer)
                         fresh_session)) \<noteq> []"
    by (simp add: script_log alice_run_def)
  have r: "raised (fst (script (alice_run Absent (Timestamp 1704880800000000000) no_writer)
                         fresh_session)) = None"
    using n by (simp add: script_page_nonempty Let_def to_excel_def alice_run_def no_writer_def)
  show ?thesis
    using export_offered_iff_records_and_serialised [of "idle_run no_writer" fresh_session]
      export_offered_iff_records_and_serialised
        [of "alice_run Absent (Timestamp 1704880800000000000) no_writer" fresh_session]
      e n r
    by simp
qed

text \<open>
  C2 as stated fails: after one submission the sequence is non-empty, and when the
  serialiser raises, the run ends before the download button is rendered.
\<close>

theorem export_missing_although_records_exist:
  "\<not> (offers_export (fst (script (alice_run Present (Timestamp 1704880800000000000) failing_writer)
                           fresh_session)) \<longleftrightarrow>
       attendance_log (snd (script (alice_run Present (Timestamp 1704880800000000000) failing_writer)
                           fresh_session)) \<noteq> [])"
proof -
  have n: "attendance_log (snd (script (alice_run Present (Timestamp 1704880800000000000)
             failing_writer) fresh_session)) \<noteq> []"
    by (simp add: script_log alice_run_def)
  have "\<not> offers_export (fst (script (alice_run Present (Timestamp 1704880800000000000)
             failing_writer) fresh_session))"
    using n
    by (simp add: script_page_nonempty Let_def to_excel_def alice_run_def failing_writer_def
        offers_export_def attendance_form_elements)
  with n show ?thesis by simp
qed

text \<open>
  C6. When the serialisation of the (non-empty) log fails with an exception, the run ends
  in that very exception right after the table was rendered: the page offers no download,
  so no file, empty or corrupt, reaches the user, and no further attempt is made, whatever
  a later attempt would have returned.
\<close>

theorem serialisation_failure_ends_the_run:
  assumes "attendance_log (snd (script inp st)) \<noteq> []"
    and "excel_writer inp 0
           (df_to_excel (DataFrame (attendance_log (snd (script inp st)))) [] False ''Attendance'')
         = Inl e"
  shows "raised (fst (script inp st)) = Some e \<and>
         \<not> offers_export (fst (script inp st)) \<and>
         elements (fst (script inp st)) =
           Title title_caption # snd (attendance_form inp (attendance_log st)) @
           [Subheader records_caption,
            Dataframe (DataFrame (attendance_log (snd (script inp st))))]"
  using assms
  by (simp add: script_page_nonempty Let_def to_excel_def offers_export_def
      attendance_form_elements)

text \<open>
  A serialiser whose first attempt fails and whose second attempt would succeed: the run
  ends in the first exception.
\<close>

theorem first_failure_is_final:
  "flaky_writer 1
     (df_to_excel (DataFrame (attendance_log (snd (script
        (alice_run Remote (Timestamp 1704880800000000000) flaky_writer) fresh_session))))
        [] False ''Attendance'') = Inr [0x50, 0x4B] \<and>
   raised (fst (script (alice_run Remote (Timestamp 1704880800000000000) flaky_writer)
            fresh_session)) = Some (ExcelError ''first attempt failed'') \<and>
   \<not> offers_export (fst (script (alice_run Remote (Timestamp 1704880800000000000) flaky_writer)
            fresh_session))"
proof -
  have n: "attendance_log (snd (script (alice_run Remote (Timestamp 1704880800000000000)
             flaky_writer) fresh_session)) \<noteq> []"
    by (simp add: script_log alice_run_def)
  have w: "excel_writer (alice_run Remote (Timestamp 1704880800000000000) flaky_writer) 0
             (df_to_excel (DataFrame (attendance_log (snd (script
                (alice_run Remote (Timestamp 1704880800000000000) flaky_writer) fresh_session))))
                [] False ''Attendance'') = Inl (ExcelError ''first attempt failed'')"
    by (simp add: alice_run_def flaky_writer_def)
  show ?thesis
    using serialisation_failure_ends_the_run [OF n w]
    by (simp add: flaky_writer_def)
qed






section \<open>Properties of the display showcase\<close>

subsection \<open>The identifiers of the dataset\<close>

lemma product_rows_ids:
  "product_rows np start rng i ps = Inr rows \<Longrightarrow>
   map fst rows = map (\<lambda>j. i + int j) [0..<length ps]"
proof (induction ps arbitrary: rng i rows)
  case Nil
  then show ?case by simp
next
  case (Cons p ps)
  obtain name cat where p: "p = (name, cat)" by (cases p)
  obtain units rng1 where d1: "np_integers np rng 50 400 = (units, rng1)"
    by (cases "np_integers np rng 50 400")
  obtain pr rng2 where d2: "np_integers np rng1 150 3500 = (pr, rng2)"
    by (cases "np_integers np rng1 150 3500")
  obtain rating rng3 where d3:
    "np_choice_float np rng2 (map (\<lambda>m. np_float np m 1) [32, 38, 40, 43, 46, 48, 50]) =
       (rating, rng3)"
    by (cases "np_choice_float np rng2 (map (\<lambda>m. np_float np m 1) [32, 38, 40, 43, 46, 48, 50])")
  obtain in_stock rng4 where d4: "np_choice_bool np rng3 [True, True, True, False] = (in_stock, rng4)"
    by (cases "np_choice_bool np rng3 [True, True, True, False]")
  obtain k rng5 where d5: "np_integers np rng4 0 120 = (k, rng5)"
    by (cases "np_integers np rng4 0 120")
  from Cons.prems obtain rest where
    rest: "product_rows np start rng5 (i + 1) ps = Inr rest" and
    rows: "map fst rows = i # map fst rest"
    using p d1 d2 d3 d4 d5
    by (auto simp: Let_def split: sum.splits)
  have "map fst rest = map (\<lambda>j. (i + 1) + int j) [0..<length ps]"
    using Cons.IH [OF rest] .
  then have "map fst rows = i # map (\<lambda>j. i + int (Suc j)) [0..<length ps]"
    using rows by (simp add: add.assoc add.commute)
  also have "\<dots> = map (\<lambda>j. i + int j) [0..<length (p # ps)]"
    by (simp add: upt_conv_Cons del: upt_Suc) (simp add: map_Suc_upt [symmetric] del: upt_Suc)
  finally show ?case .
qed

lemma product_frame_ids: "map p_id (product_frame np rows) = map fst rows"
  by (simp add: product_frame_def split_def)

lemma make_df_ids:
  assumes "make_df np m = Inr df"
  shows "map p_id df = [1, 2, 3, 4, 5, 6, 7, 8, 9, 10]"
proof -
  from assms obtain start rows where
    rows: "product_rows np start (default_rng np m (Some 42)) 1 products = Inr rows" and
    df: "df = product_frame np rows"
    by (auto simp: make_df_def Let_def split: sum.splits)
  have "map p_id df = map (\<lambda>j. 1 + int j) [0..<length products]"
    using product_rows_ids [OF rows] df by (simp add: product_frame_ids)
  also have "\<dots> = [1, 2, 3, 4, 5, 6, 7, 8, 9, 10]"
    by (simp add: products_def upt_rec)
  finally show ?thesis .
qed

text \<open>
  With in-range draws and a date from 0001-05-01 on, the generation raises nothing.
\<close>

lemma product_rows_succeeds:
  assumes range: "\<And>g low high. low < high \<Longrightarrow>
             low \<le> fst (np_integers np g low high) \<and> fst (np_integers np g low high) < high"
    and lo: "1 \<le> toordinal start"
    and hi: "toordinal start + 119 \<le> 3652059"
  shows "\<exists>rows. product_rows np start rng i ps = Inr rows"
proof (induction ps arbitrary: rng i)
  case Nil
  show ?case by simp
next
  case (Cons p ps)
  obtain name cat where p: "p = (name, cat)" by (cases p)
  obtain units rng1 where d1: "np_integers np rng 50 400 = (units, rng1)"
    by (cases "np_integers np rng 50 400")
  obtain pr rng2 where d2: "np_integers np rng1 150 3500 = (pr, rng2)"
    by (cases "np_integers np rng1 150 3500")
  obtain rating rng3 where d3:
    "np_choice_float np rng2 (map (\<lambda>m. np_float np m 1) [32, 38, 40, 43, 46, 48, 50]) =
       (rating, rng3)"
    by (cases "np_choice_float np rng2 (map (\<lambda>m. np_float np m 1) [32, 38, 40, 43, 46, 48, 50])")
  obtain in_stock rng4 where d4: "np_choice_bool np rng3 [True, True, True, False] = (in_stock, rng4)"
    by (cases "np_choice_bool np rng3 [True, True, True, False]")
  obtain k rng5 where d5: "np_integers np rng4 0 120 = (k, rng5)"
    by (cases "np_integers np rng4 0 120")
  have k: "0 \<le> k \<and> k < 120"
    using range [of 0 120 rng4] d5 by simp
  have day: "date_plus_days start k = Inr (Date (toordinal start + k))"
    using k lo hi by (simp add: date_plus_days_def)
  obtain rest where rest: "product_rows np start rng5 (i + 1) ps = Inr rest"
    using Cons.IH [of rng5 "i + 1"] by blast
  show ?case
    using p d1 d2 d3 d4 d5 day rest by (simp add: Let_def)
qed

lemma make_df_succeeds:
  assumes "\<And>g low high. low < high \<Longrightarrow>
             low \<le> fst (np_integers np g low high) \<and> fst (np_integers np g low high) < high"
    and "121 \<le> toordinal (today m)"
    and "toordinal (today m) \<le> 3652059"
  shows "\<exists>df. make_df np m = Inr df"
proof -
  have start: "date_plus_days (today m) (- 120) = Inr (Date (toordinal (today m) - 120))"
    using assms(2,3) by (simp add: date_plus_days_def)
  obtain rows where
    "product_rows np (Date (toordinal (today m) - 120)) (default_rng np m (Some 42)) 1 products =
       Inr rows"
    using product_rows_succeeds [of np "Date (toordinal (today m) - 120)"
        "default_rng np m (Some 42)" 1 products] assms
    by auto
  with start show ?thesis
    by (simp add: make_df_def Let_def)
qed

subsection \<open>The merge on aligned, pairwise different identifiers\<close>

lemma filter_unique_key:
  "distinct (map f xs) \<Longrightarrow> x \<in> set xs \<Longrightarrow> filter (\<lambda>y. f y = f x) xs = [x]"
proof (induction xs)
  case Nil
  then show ?case by simp
next
  case (Cons a xs)
  show ?case
  proof (cases "x = a")
    case True
    have "filter (\<lambda>y. f y = f a) xs = []"
      using Cons.prems(1) by (auto simp: filter_empty_conv image_iff)
    with True show ?thesis by simp
  next
    case False
    with Cons.prems have x: "x \<in> set xs" by simp
    then have "f a \<noteq> f x" using Cons.prems(1) by (auto simp: image_iff)
    moreover have "filter (\<lambda>y. f y = f x) xs = [x]"
      using Cons.IH x Cons.prems(1) by simp
    ultimately show ?thesis by simp
  qed
qed

lemma merge_left_aligned:
  assumes d: "distinct (map k_id right)" and a: "map k_id right = map b_id left"
  shows "merge_left left right = map (\<lambda>(l, r). joined l (Some r)) (zip left right)"
proof -
  have len: "length right = length left"
    using a by (metis length_map)
  have "map (\<lambda>l. case filter (\<lambda>r. k_id r = b_id l) right of
                    [] \<Rightarrow> [joined l None]
                  | matches \<Rightarrow> map (\<lambda>r. joined l (Some r)) matches) left =
        map (\<lambda>(l, r). [joined l (Some r)]) (zip left right)"
  proof (rule nth_equalityI)
    show "length (map (\<lambda>l. case filter (\<lambda>r. k_id r = b_id l) right of
                    [] \<Rightarrow> [joined l None]
                  | matches \<Rightarrow> map (\<lambda>r. joined l (Some r)) matches) left) =
          length (map (\<lambda>(l, r). [joined l (Some r)]) (zip left right))"
      using len by simp
  next
    fix i
    assume "i < length (map (\<lambda>l. case filter (\<lambda>r. k_id r = b_id l) right of
                    [] \<Rightarrow> [joined l None]
                  | matches \<Rightarrow> map (\<lambda>r. joined l (Some r)) matches) left)"
    then have i: "i < length left" by simp
    with len have ir: "i < length right" by simp
    have key: "b_id (left ! i) = k_id (right ! i)"
      using a i ir by (metis nth_map)
    have "filter (\<lambda>r. k_id r = k_id (right ! i)) right = [right ! i]"
      using d ir by (intro filter_unique_key) simp_all
    then show "map (\<lambda>l. case filter (\<lambda>r. k_id r = b_id l) right of
                    [] \<Rightarrow> [joined l None]
                  | matches \<Rightarrow> map (\<lambda>r. joined l (Some r)) matches) left ! i =
          map (\<lambda>(l, r). [joined l (Some r)]) (zip left right) ! i"
      using i ir key by simp
  qed
  then have "merge_left left right =
      concat (map (\<lambda>(l, r). [joined l (Some r)]) (zip left right))"
    by (simp add: merge_left_def)
  also have "\<dots> = map (\<lambda>(l, r). joined l (Some r)) (zip left right)"
    by (induction left right rule: list_induct2') simp_all
  finally show ?thesis .
qed


subsection \<open>The editor and the recomputed frame\<close>

lemma edit_row_Inr:
  assumes "edit_row r c = Inr r'"
  shows "e_id r' = e_id r \<and> e_product r' = e_product r \<and> e_price r' = e_price r \<and>
         e_units r' = (case units_edit c of
                         None \<Rightarrow> e_units r
                       | Some Cleared \<Rightarrow> None
                       | Some (Entered v) \<Rightarrow> Some v) \<and>
         e_in_stock r' = (case in_stock_edit c of None \<Rightarrow> e_in_stock r | Some b \<Rightarrow> b)"
  using assms
  by (auto simp: edit_row_def Let_def split: option.splits units_entry.splits if_splits)

lemma edit_row_returns:
  assumes "\<And>v. units_edit c = Some (Entered v) \<Longrightarrow> in_int64 v"
  shows "\<exists>r'. edit_row r c = Inr r'"
  using assms
  by (auto simp: edit_row_def Let_def split: option.splits units_entry.splits)

lemma editor_rows_length:
  "editor_rows edits i rs = Inr rs' \<Longrightarrow> length rs' = length rs"
  by (induction rs arbitrary: i rs') (auto split: sum.splits)

lemma editor_rows_nth:
  "editor_rows edits i rs = Inr rs' \<Longrightarrow> j < length rs \<Longrightarrow>
   (case edits (i + j) of None \<Rightarrow> Inr (rs ! j) | Some c \<Rightarrow> edit_row (rs ! j) c) = Inr (rs' ! j)"
proof (induction rs arbitrary: i rs' j)
  case Nil
  then show ?case by simp
next
  case (Cons r rs)
  from Cons.prems(1) obtain r' rest where
    r': "(case edits i of None \<Rightarrow> Inr r | Some c \<Rightarrow> edit_row r c) = Inr r'" and
    rest: "editor_rows edits (Suc i) rs = Inr rest" and
    rs': "rs' = r' # rest"
    by (auto split: sum.splits)
  show ?case
  proof (cases j)
    case 0
    with r' rs' show ?thesis by (simp split: option.splits)
  next
    case (Suc n)
    with Cons.prems(2) have n: "n < length rs" by simp
    from Cons.IH [OF rest n] Suc rs' show ?thesis by (simp split: option.splits)
  qed
qed

lemma editor_rows_returns:
  assumes "\<And>k c v. edits k = Some c \<Longrightarrow> units_edit c = Some (Entered v) \<Longrightarrow> in_int64 v"
  shows "\<exists>rs'. editor_rows edits i rs = Inr rs'"
proof (induction rs arbitrary: i)
  case Nil
  show ?case by simp
next
  case (Cons r rs)
  have "\<exists>r'. (case edits i of None \<Rightarrow> Inr r | Some c \<Rightarrow> edit_row r c) = Inr r'"
  proof (cases "edits i")
    case None
    then show ?thesis by simp
  next
    case (Some c)
    then show ?thesis
      using edit_row_returns [of c r] assms [of i c] by simp
  qed
  moreover obtain rest where "editor_rows edits (Suc i) rs = Inr rest"
    using Cons.IH [of "Suc i"] by blast
  ultimately show ?case by auto
qed

text \<open>The editor raises for no edit whose numbers are int64 values.\<close>

lemma data_editor_returns:
  assumes "\<And>k c v. edits k = Some c \<Longrightarrow> units_edit c = Some (Entered v) \<Longrightarrow> in_int64 v"
  shows "\<exists>edited. data_editor shown edits = Inr edited"
  unfolding data_editor_def using assms by (rule editor_rows_returns)

lemma data_editor_length:
  "data_editor shown edits = Inr edited \<Longrightarrow> length edited = length shown"
  unfolding data_editor_def by (rule editor_rows_length)

lemma data_editor_nth:
  assumes "data_editor shown edits = Inr edited" and "i < length shown"
  shows "(case edits i of None \<Rightarrow> Inr (shown ! i) | Some c \<Rightarrow> edit_row (shown ! i) c) =
           Inr (edited ! i)"
  using editor_rows_nth [of edits 0 shown edited i] assms
  by (simp add: data_editor_def)

lemma data_editor_ids:
  assumes "data_editor shown edits = Inr edited"
  shows "map e_id edited = map e_id shown"
proof (rule nth_equalityI)
  show "length (map e_id edited) = length (map e_id shown)"
    using data_editor_length [OF assms] by simp
next
  fix i
  assume "i < length (map e_id edited)"
  then have i: "i < length shown"
    using data_editor_length [OF assms] by simp
  have "e_id (edited ! i) = e_id (shown ! i)"
    using data_editor_nth [OF assms i] edit_row_Inr [of "shown ! i" _ "edited ! i"]
    by (cases "edits i") auto
  then show "map e_id edited ! i = map e_id shown ! i"
    using i data_editor_length [OF assms] by simp
qed

lemma edited_ids:
  "data_editor (editor_view df) edits = Inr edited \<Longrightarrow> map e_id edited = map p_id df"
  by (simp add: data_editor_ids) (simp add: editor_view_def)

lemma edited_units_nth:
  assumes "data_editor (editor_view df) edits = Inr edited" and "i < length df"
  shows "e_units (edited ! i) =
           (case edits i of
              None \<Rightarrow> Some (p_units (df ! i))
            | Some c \<Rightarrow>
                (case units_edit c of
                   None \<Rightarrow> Some (p_units (df ! i))
                 | Some Cleared \<Rightarrow> None
                 | Some (Entered v) \<Rightarrow> Some v))"
proof -
  have i: "i < length (editor_view df)"
    using assms(2) by (simp add: editor_view_def)
  have shown: "e_units (editor_view df ! i) = Some (p_units (df ! i))"
    using assms(2) by (simp add: editor_view_def)
  show ?thesis
    using data_editor_nth [OF assms(1) i] edit_row_Inr [of "editor_view df ! i" _ "edited ! i"]
      shown
    by (cases "edits i") (auto split: option.splits units_entry.splits)
qed

lemma grid_Inr:
  assumes "editable_grid np df edits = Inr (edited, merged)"
  shows "data_editor (editor_view df) edits = Inr edited \<and>
         merged = recompute_revenue np (merge_left (drop_columns df) (key_columns edited))"
  using assms by (auto simp: editable_grid_def Let_def split: sum.splits)

lemma grid_rows:
  assumes "distinct (map p_id df)" and "editable_grid np df edits = Inr (edited, merged)"
  shows "merged = map (\<lambda>(r, e). merged_of np r e) (zip df edited)"
proof -
  have e: "data_editor (editor_view df) edits = Inr edited"
    and m: "merged = recompute_revenue np (merge_left (drop_columns df) (key_columns edited))"
    using grid_Inr [OF assms(2)] by simp_all
  have keys: "map k_id (key_columns edited) = map b_id (drop_columns df)"
    using edited_ids [OF e] by (simp add: key_columns_def drop_columns_def comp_def)
  have "map b_id (drop_columns df) = map p_id df"
    by (simp add: drop_columns_def)
  with keys assms(1) have d: "distinct (map k_id (key_columns edited))"
    by simp
  have ml: "merge_left (drop_columns df) (key_columns edited) =
          map (\<lambda>(l, r). joined l (Some r)) (zip (drop_columns df) (key_columns edited))"
    using d keys by (rule merge_left_aligned)
  show ?thesis
    unfolding m ml
    by (simp add: recompute_revenue_def drop_columns_def key_columns_def zip_map_map
        joined_def merged_of_def split_def comp_def split: option.splits)
qed

lemma grid_edited_length:
  "editable_grid np df edits = Inr (edited, merged) \<Longrightarrow> length edited = length df"
  using grid_Inr [of np df edits edited merged] data_editor_length [of "editor_view df" edits edited]
  by (simp add: editor_view_def)

lemma grid_length:
  assumes "distinct (map p_id df)" and "editable_grid np df edits = Inr (edited, merged)"
  shows "length merged = length df"
  using grid_rows [OF assms] grid_edited_length [OF assms(2)] by simp

lemma grid_nth:
  assumes "distinct (map p_id df)" and "editable_grid np df edits = Inr (edited, merged)"
    and "i < length df"
  shows "merged ! i = merged_of np (df ! i) (edited ! i)"
  using grid_rows [OF assms(1,2)] grid_edited_length [OF assms(2)] assms(3) by simp

lemma product_frame_revenue:
  "i < length rows \<Longrightarrow>
   p_revenue (product_frame np rows ! i) =
     np_mul np (np_float np (p_units (product_frame np rows ! i)) 0)
       (p_price (product_frame np rows ! i))"
  by (simp add: product_frame_def split_def)

lemma product_frame_length: "length (product_frame np rows) = length rows"
  by (simp add: product_frame_def)

text \<open>Mapping over a zip of two lists of equal length.\<close>

lemma map_zip_left:
  "length xs = length ys \<Longrightarrow> map (\<lambda>(x, y). f x) (zip xs ys) = map f xs"
  by (induction xs ys rule: list_induct2) simp_all

lemma map_zip_right:
  "length xs = length ys \<Longrightarrow> map (\<lambda>(x, y). g y) (zip xs ys) = map g ys"
  by (induction xs ys rule: list_induct2) simp_all

subsection \<open>The model on concrete inputs\<close>

text \<open>The concrete numpy, and the frame of the table of three products.\<close>

lemma exact_np_simps:
  "np_seed exact_np s = s"
  "np_integers exact_np g low high = (low + int g mod (high - low), lcg_next g)"
  "np_choice_float exact_np g (x # xs) = ((x # xs) ! (g mod length (x # xs)), lcg_next g)"
  "np_choice_bool exact_np g (b # bs) = ((b # bs) ! (g mod length (b # bs)), lcg_next g)"
  "np_float exact_np m k = Some (of_int m / 10 ^ k)"
  "np_mul exact_np (Some q) (Some r) = Some (q * r)"
  "np_nan exact_np = None"
  by (simp_all add: exact_np_def)

lemma three_products_frame:
  "product_frame exact_np three_products =
     [\<lparr>p_id = 1, p_product = ''Engine Oil'', p_category = ''AutoCare'', p_units = 100,
       p_price = Some 20, p_rating = Some (16 / 5), p_in_stock = True,
       p_added_on = Date 738800, p_url = ''https://example.com/product/1'',
       p_revenue = Some 2000\<rparr>,
      \<lparr>p_id = 2, p_product = ''Air Filter'', p_category = ''AutoCare'', p_units = 60,
       p_price = Some 450, p_rating = Some 4, p_in_stock = False,
       p_added_on = Date 738810, p_url = ''https://example.com/product/2'',
       p_revenue = Some 27000\<rparr>,
      \<lparr>p_id = 3, p_product = ''Dash Cam'', p_category = ''Electronics'', p_units = 75,
       p_price = Some 1999, p_rating = Some 5, p_in_stock = True,
       p_added_on = Date 738820, p_url = ''https://example.com/product/3'',
       p_revenue = Some 149925\<rparr>]"
  by (simp add: product_frame_def three_products_def exact_np_simps)

text \<open>
  The dataset the script builds on 2024-01-10 with the concrete numpy, evaluated from the
  definitions.
\<close>

lemma str_int_digits:
  "str_int 1 = ''1''" "str_int 2 = ''2''" "str_int 3 = ''3''" "str_int 4 = ''4''"
  "str_int 5 = ''5''" "str_int 6 = ''6''" "str_int 7 = ''7''" "str_int 8 = ''8''"
  "str_int 9 = ''9''" "str_int 10 = ''10''"
  by (simp_all add: str_int_def str_nat.simps)

lemma make_df_machine_a:
  "make_df exact_np machine_a =
     Inr [\<lparr>p_id = 1, p_product = ''Engine Oil'', p_category = ''AutoCare'',
         p_units = 92, p_price = Some 3374, p_rating = Some (19 / 5),
         p_in_stock = True, p_added_on = Date 738866,
         p_url = ''https://example.com/product/1'',
         p_revenue = Some 310408\<rparr>,
      \<lparr>p_id = 2, p_product = ''Air Filter'', p_category = ''AutoCare'',
         p_units = 298, p_price = Some 2783, p_rating = Some (24 / 5),
         p_in_stock = True, p_added_on = Date 738876,
         p_url = ''https://example.com/product/2'',
         p_revenue = Some 829334\<rparr>,
      \<lparr>p_id = 3, p_product = ''Spark Plug'', p_category = ''AutoCare'',
         p_units = 231, p_price = Some 1433, p_rating = Some (19 / 5),
         p_in_stock = False, p_added_on = Date 738874,
         p_url = ''https://example.com/product/3'',
         p_revenue = Some 331023\<rparr>,
      \<lparr>p_id = 4, p_product = ''Brake Pads'', p_category = ''AutoCare'',
         p_units = 259, p_price = Some 2498, p_rating = Some (19 / 5),
         p_in_stock = True, p_added_on = Date 738839,
         p_url = ''https://example.com/product/4'',
         p_revenue = Some 646982\<rparr>,
      \<lparr>p_id = 5, p_product = ''Coolant'', p_category = ''AutoCare'',
         p_units = 321, p_price = Some 3062, p_rating = Some (16 / 5),
         p_in_stock = True, p_added_on = Date 738789,
         p_url = ''https://example.com/product/5'',
         p_revenue = Some 982902\<rparr>,
      \<lparr>p_id = 6, p_product = ''Wiper Blade'', p_category = ''AutoCare'',
         p_units = 223, p_price = Some 3127, p_rating = Some (19 / 5),
         p_in_stock = True, p_added_on = Date 738894,
         p_url = ''https://example.com/product/6'',
         p_revenue = Some 697321\<rparr>,
      \<lparr>p_id = 7, p_product = ''GPS Tracker'', p_category = ''Electronics'',
         p_units = 159, p_price = Some 3448, p_rating = Some 4,
         p_in_stock = True, p_added_on = Date 738891,
         p_url = ''https://example.com/product/7'',
         p_revenue = Some 548232\<rparr>,
      \<lparr>p_id = 8, p_product = ''Phone Mount'', p_category = ''Electronics'',
         p_units = 391, p_price = Some 3031, p_rating = Some (23 / 5),
         p_in_stock = False, p_added_on = Date 738837,
         p_url = ''https://example.com/product/8'',
         p_revenue = Some 1185121\<rparr>,
      \<lparr>p_id = 9, p_product = ''Dash Cam'', p_category = ''Electronics'',
         p_units = 392, p_price = Some 1169, p_rating = Some (24 / 5),
         p_in_stock = True, p_added_on = Date 738802,
         p_url = ''https://example.com/product/9'',
         p_revenue = Some 458248\<rparr>,
      \<lparr>p_id = 10, p_product = ''Tyre Shine'', p_category = ''CarCare'',
         p_units = 392, p_price = Some 3100, p_rating = Some (16 / 5),
         p_in_stock = True, p_added_on = Date 738829,
         p_url = ''https://example.com/product/10'',
         p_revenue = Some 1215200\<rparr>]"
  by (simp add: make_df_def machine_a_def default_rng_def date_plus_days_def products_def
      exact_np_simps lcg_next_def product_frame_def str_int_digits)

subsection \<open>The claims\<close>

text \<open>
  C5, as amended. Take any table of product rows with pairwise different identifiers (the
  table of the script is one: its identifiers are 1 to 10), its frame with the revenue
  column, and any edits for which the editor returns. When the unit count of the row at
  position \<open>k\<close> is edited to the number \<open>u'\<close>, the recomputed frame has, at position
  \<open>k\<close>, the unit count \<open>u'\<close>, the unchanged unit price, and as revenue the product of
  \<open>u'\<close> and that price. Every row whose unit cell was not edited keeps its unit count
  and its revenue, and no row changes its price. After the recomputation every row that
  has a unit count has the product of that count and its unit price as revenue; a row
  whose unit cell was cleared has no unit count, and NaN as revenue. The product is the
  float64 product of the script, whatever its rounding.
\<close>

theorem revenue_follows_the_edited_units:
  assumes "distinct (map fst rows)"
    and "df = product_frame np rows"
    and "editable_grid np df edits = Inr (edited, merged)"
    and "k < length df"
    and "edits k = Some c"
    and "units_edit c = Some (Entered u')"
  shows "m_units (merged ! k) = Some u' \<and>
         m_price (merged ! k) = p_price (df ! k) \<and>
         m_revenue (merged ! k) = np_mul np (np_float np u' 0) (p_price (df ! k)) \<and>
         length merged = length df \<and>
         (\<forall>j<length df. (case edits j of None \<Rightarrow> True | Some c' \<Rightarrow> units_edit c' = None) \<longrightarrow>
            m_units (merged ! j) = Some (p_units (df ! j)) \<and>
            m_revenue (merged ! j) = p_revenue (df ! j)) \<and>
         (\<forall>j<length df. m_price (merged ! j) = p_price (df ! j)) \<and>
         (\<forall>j<length df. \<forall>u. m_units (merged ! j) = Some u \<longrightarrow>
            m_revenue (merged ! j) = np_mul np (np_float np u 0) (m_price (merged ! j))) \<and>
         (\<forall>j<length df. \<forall>c'. edits j = Some c' \<and> units_edit c' = Some Cleared \<longrightarrow>
            m_units (merged ! j) = None \<and> m_revenue (merged ! j) = np_nan np)"
proof -
  have d: "distinct (map p_id df)"
    using assms(1,2) by (simp add: product_frame_ids)
  have e: "data_editor (editor_view df) edits = Inr edited"
    using grid_Inr [OF assms(3)] by simp
  have len: "length merged = length df"
    using d assms(3) by (rule grid_length)
  have row: "merged ! j = merged_of np (df ! j) (edited ! j)" if "j < length df" for j
    using d assms(3) that by (rule grid_nth)
  have units: "m_units (merged ! k) = Some u'"
    using row [OF assms(4)] edited_units_nth [OF e assms(4)] assms(5,6)
    by (simp add: merged_of_def)
  have price: "m_price (merged ! j) = p_price (df ! j)" if "j < length df" for j
    using row [OF that] by (simp add: merged_of_def)
  have rev: "m_revenue (merged ! j) = np_mul np (np_float np u 0) (m_price (merged ! j))"
    if "j < length df" and "m_units (merged ! j) = Some u" for j u
    using row [OF that(1)] that(2) by (simp add: merged_of_def)
  have edited_row: "m_revenue (merged ! k) = np_mul np (np_float np u' 0) (p_price (df ! k))"
    using row [OF assms(4)] edited_units_nth [OF e assms(4)] assms(5,6)
    by (simp add: merged_of_def)
  have other: "m_units (merged ! j) = Some (p_units (df ! j)) \<and>
               m_revenue (merged ! j) = p_revenue (df ! j)"
    if "j < length df" and "case edits j of None \<Rightarrow> True | Some c' \<Rightarrow> units_edit c' = None" for j
  proof -
    have "e_units (edited ! j) = Some (p_units (df ! j))"
      using edited_units_nth [OF e that(1)] that(2) by (simp split: option.splits)
    moreover have "p_revenue (df ! j) = np_mul np (np_float np (p_units (df ! j)) 0) (p_price (df ! j))"
      using that(1) unfolding assms(2)
      by (simp add: product_frame_revenue product_frame_length)
    ultimately show ?thesis
      using row [OF that(1)] by (simp add: merged_of_def)
  qed
  have cleared: "m_units (merged ! j) = None \<and> m_revenue (merged ! j) = np_nan np"
    if "j < length df" and "edits j = Some c'" and "units_edit c' = Some Cleared" for j c'
    using row [OF that(1)] edited_units_nth [OF e that(1)] that(2,3)
    by (simp add: merged_of_def)
  from units price [OF assms(4)] edited_row len other price rev cleared show ?thesis
    by blast
qed

text \<open>The editor returns for the two sets of edits of the table of three products.\<close>

lemma three_products_grid_returns:
  "\<not> isl (editable_grid exact_np (product_frame exact_np three_products) units_to_150) \<and>
   \<not> isl (editable_grid exact_np (product_frame exact_np three_products)
            units_to_150_and_cleared)"
proof -
  have "\<exists>e. data_editor (editor_view (product_frame exact_np three_products)) units_to_150 = Inr e"
    by (rule data_editor_returns)
       (auto simp: units_to_150_def in_int64_def split: if_splits)
  moreover have "\<exists>e. data_editor (editor_view (product_frame exact_np three_products))
                   units_to_150_and_cleared = Inr e"
    by (rule data_editor_returns)
       (auto simp: units_to_150_and_cleared_def in_int64_def split: if_splits)
  ultimately show ?thesis
    by (auto simp: editable_grid_def Let_def)
qed

text \<open>
  The scenario of C5: 100 units at a unit price of 20, edited to 150 units. The revenue
  of the row becomes 3000; the revenues 27000 and 149925 of the other rows stay.
\<close>

theorem units_100_to_150_at_price_20:
  "map p_revenue (product_frame exact_np three_products) =
     [Some 2000, Some 27000, Some 149925] \<and>
   length (snd (projr (editable_grid exact_np (product_frame exact_np three_products)
                         units_to_150))) = 3 \<and>
   m_units (snd (projr (editable_grid exact_np (product_frame exact_np three_products)
                          units_to_150)) ! 0) = Some 150 \<and>
   m_price (snd (projr (editable_grid exact_np (product_frame exact_np three_products)
                          units_to_150)) ! 0) = Some 20 \<and>
   m_revenue (snd (projr (editable_grid exact_np (product_frame exact_np three_products)
                            units_to_150)) ! 0) = Some 3000 \<and>
   m_revenue (snd (projr (editable_grid exact_np (product_frame exact_np three_products)
                            units_to_150)) ! 1) = Some 27000 \<and>
   m_revenue (snd (projr (editable_grid exact_np (product_frame exact_np three_products)
                            units_to_150)) ! 2) = Some 149925"
proof -
  let ?df = "product_frame exact_np three_products"
  let ?grid = "editable_grid exact_np ?df units_to_150"
  let ?merged = "snd (projr ?grid)"
  have d: "distinct (map fst three_products)"
    by (simp add: three_products_def)
  have k: "0 < length ?df"
    by (simp add: three_products_frame)
  have e: "units_to_150 0 = Some \<lparr>units_edit = Some (Entered 150), in_stock_edit = None\<rparr>"
    by (simp add: units_to_150_def)
  have u: "units_edit \<lparr>units_edit = Some (Entered 150), in_stock_edit = None\<rparr> =
             Some (Entered 150)"
    by simp
  have f: "?df = product_frame exact_np three_products"
    by simp
  have g: "?grid = Inr (fst (projr ?grid), ?merged)"
    using three_products_grid_returns by (cases ?grid) simp_all
  note t = revenue_follows_the_edited_units [OF d f g k e u]
  have len: "length ?merged = 3"
    using t by (simp add: three_products_frame)
  have r0: "m_revenue (?merged ! 0) = Some 3000" and u0: "m_units (?merged ! 0) = Some 150"
    and p0: "m_price (?merged ! 0) = Some 20"
    using t by (simp_all add: three_products_frame exact_np_simps)
  have others: "\<forall>j<3. (case units_to_150 j of None \<Rightarrow> True | Some c' \<Rightarrow> units_edit c' = None) \<longrightarrow>
            m_units (?merged ! j) = Some (p_units (?df ! j)) \<and>
            m_revenue (?merged ! j) = p_revenue (?df ! j)"
    using t by (simp add: three_products_frame)
  have r1: "m_revenue (?merged ! 1) = Some 27000"
    using others [rule_format, of 1] by (simp add: units_to_150_def three_products_frame)
  have r2: "m_revenue (?merged ! 2) = Some 149925"
    using others [rule_format, of 2] by (simp add: units_to_150_def three_products_frame)
  have "map p_revenue ?df = [Some 2000, Some 27000, Some 149925]"
    by (simp add: three_products_frame)
  with len u0 p0 r0 r1 r2 show ?thesis
    by blast
qed

text \<open>
  C5 as stated fails: when the unit cell of the second row is cleared as well, the
  recomputed frame has a row with a unit price of 450, no unit count, and NaN (\<open>None\<close>
  in the concrete numpy) as revenue, so not every row has revenue = units \<times> price.
\<close>

theorem cleared_unit_cell_has_no_unit_count:
  "\<not> isl (editable_grid exact_np (product_frame exact_np three_products)
            units_to_150_and_cleared) \<and>
   m_units (snd (projr (editable_grid exact_np (product_frame exact_np three_products)
                          units_to_150_and_cleared)) ! 1) = None \<and>
   m_price (snd (projr (editable_grid exact_np (product_frame exact_np three_products)
                          units_to_150_and_cleared)) ! 1) = Some 450 \<and>
   m_revenue (snd (projr (editable_grid exact_np (product_frame exact_np three_products)
                            units_to_150_and_cleared)) ! 1) = None"
proof -
  let ?df = "product_frame exact_np three_products"
  let ?grid = "editable_grid exact_np ?df units_to_150_and_cleared"
  have d: "distinct (map p_id ?df)"
    by (simp add: three_products_frame)
  have i: "1 < length ?df"
    by (simp add: three_products_frame)
  have ret: "\<not> isl ?grid"
    using three_products_grid_returns by simp
  then have g: "?grid = Inr (fst (projr ?grid), snd (projr ?grid))"
    by (cases ?grid) simp_all
  have e: "data_editor (editor_view ?df) units_to_150_and_cleared = Inr (fst (projr ?grid))"
    using grid_Inr [OF g] by simp
  have "e_units (fst (projr ?grid) ! 1) = None"
    using edited_units_nth [OF e i] by (simp add: units_to_150_and_cleared_def)
  moreover have "snd (projr ?grid) ! 1 = merged_of exact_np (?df ! 1) (fst (projr ?grid) ! 1)"
    using d g i by (rule grid_nth)
  ultimately show ?thesis
    using ret by (simp add: merged_of_def three_products_frame exact_np_simps)
qed

text \<open>
  C9. Whenever the script has built its dataset and the editor has returned its frame, the
  recomputation step gives exactly one
  row per row of the dataset, in the same order: the frames have the same number of rows,
  the identifiers of the recomputed frame are those of the dataset, pairwise different,
  and the columns \<open>product\<close>, \<open>category\<close>, \<open>price\<close>, \<open>rating\<close>, \<open>added_on\<close> and
  \<open>url\<close> are those of the dataset. The edited frame has the identifiers of the dataset
  too, and every recomputed row carries the unit count and the in-stock flag of the
  edited row with the same identifier: a left join on the identifier.
\<close>

theorem recompute_keeps_rows_and_master_data:
  assumes "make_df np m = Inr df"
    and "editable_grid np df edits = Inr (edited, merged)"
  shows "length merged = length df \<and>
         map m_id merged = map p_id df \<and>
         distinct (map m_id merged) \<and>
         map m_product merged = map p_product df \<and>
         map m_category merged = map p_category df \<and>
         map m_price merged = map p_price df \<and>
         map m_rating merged = map p_rating df \<and>
         map m_added_on merged = map p_added_on df \<and>
         map m_url merged = map p_url df \<and>
         map e_id edited = map p_id df \<and>
         map m_units merged = map e_units edited \<and>
         map m_in_stock merged = map (\<lambda>e. Some (e_in_stock e)) edited \<and>
         (\<forall>r\<in>set merged. \<forall>e\<in>set edited. e_id e = m_id r \<longrightarrow>
            m_units r = e_units e \<and> m_in_stock r = Some (e_in_stock e))"
proof -
  have ids: "map p_id df = [1, 2, 3, 4, 5, 6, 7, 8, 9, 10]"
    using assms(1) by (rule make_df_ids)
  then have d: "distinct (map p_id df)"
    by simp
  have e: "data_editor (editor_view df) edits = Inr edited"
    using grid_Inr [OF assms(2)] by simp
  have le: "length edited = length df"
    using assms(2) by (rule grid_edited_length)
  have m: "merged = map (\<lambda>(r, e). merged_of np r e) (zip df edited)"
    using d assms(2) by (rule grid_rows)
  have len: "length merged = length df"
    unfolding m using le by simp
  note left = map_zip_left [OF le [symmetric]]
  note right = map_zip_right [OF le [symmetric]]
  have mid: "map m_id merged = map p_id df"
    unfolding m using left [of p_id] by (simp add: merged_of_def comp_def split_def)
  have cols:
    "map m_product merged = map p_product df"
    "map m_category merged = map p_category df"
    "map m_price merged = map p_price df"
    "map m_rating merged = map p_rating df"
    "map m_added_on merged = map p_added_on df"
    "map m_url merged = map p_url df"
    unfolding m
    using left [of p_product] left [of p_category] left [of p_price] left [of p_rating]
      left [of p_added_on] left [of p_url]
    by (simp_all add: merged_of_def comp_def split_def)
  have eid: "map e_id edited = map p_id df"
    using e by (rule edited_ids)
  have mu: "map m_units merged = map e_units edited"
    unfolding m using right [of e_units]
    by (simp add: merged_of_def comp_def split_def)
  have ms: "map m_in_stock merged = map (\<lambda>e. Some (e_in_stock e)) edited"
    unfolding m using right [of "\<lambda>e. Some (e_in_stock e)"]
    by (simp add: merged_of_def comp_def split_def)
  have dm: "distinct (map m_id merged)"
    using mid d by simp
  have byid: "\<forall>r\<in>set merged. \<forall>e\<in>set edited. e_id e = m_id r \<longrightarrow>
            m_units r = e_units e \<and> m_in_stock r = Some (e_in_stock e)"
  proof (intro ballI impI)
    fix r e
    assume r: "r \<in> set merged" and e': "e \<in> set edited" and k: "e_id e = m_id r"
    from r obtain i where i: "i < length merged" and ri: "r = merged ! i"
      by (auto simp: in_set_conv_nth)
    from e' obtain j where j: "j < length edited" and ej: "e = edited ! j"
      by (auto simp: in_set_conv_nth)
    have "map e_id edited ! j = map m_id merged ! i"
      using k i j ri ej by simp
    then have "map p_id df ! j = map p_id df ! i"
      using eid mid by simp
    moreover have "(map p_id df ! j = map p_id df ! i) = (j = i)"
      using d by (rule nth_eq_iff_index_eq) (use i j len le in simp_all)
    ultimately have "j = i"
      by blast
    moreover have "map m_units merged ! i = map e_units edited ! i"
      using mu by simp
    moreover have "map m_in_stock merged ! i = map (\<lambda>e. Some (e_in_stock e)) edited ! i"
      using ms by simp
    ultimately show "m_units r = e_units e \<and> m_in_stock r = Some (e_in_stock e)"
      using i j ri ej by simp
  qed
  from len mid dm cols eid mu ms byid show ?thesis
    by blast
qed

text \<open>
  The recomputation of that dataset after the two edits: ten rows with the identifiers,
  names and prices of the dataset, 7 units in the second row, the fifth row out of stock.
\<close>

theorem recompute_after_two_edits:
  "length (snd (projr (editable_grid exact_np (projr (make_df exact_np machine_a)) two_edits))) =
     10 \<and>
   map m_id (snd (projr (editable_grid exact_np (projr (make_df exact_np machine_a)) two_edits))) =
     [1, 2, 3, 4, 5, 6, 7, 8, 9, 10] \<and>
   map m_product
     (snd (projr (editable_grid exact_np (projr (make_df exact_np machine_a)) two_edits))) =
     [''Engine Oil'', ''Air Filter'', ''Spark Plug'', ''Brake Pads'', ''Coolant'',
      ''Wiper Blade'', ''GPS Tracker'', ''Phone Mount'', ''Dash Cam'', ''Tyre Shine''] \<and>
   map m_price
     (snd (projr (editable_grid exact_np (projr (make_df exact_np machine_a)) two_edits))) =
     [Some 3374, Some 2783, Some 1433, Some 2498, Some 3062,
      Some 3127, Some 3448, Some 3031, Some 1169, Some 3100] \<and>
   map m_units
     (snd (projr (editable_grid exact_np (projr (make_df exact_np machine_a)) two_edits))) =
     [Some 92, Some 7, Some 231, Some 259, Some 321,
      Some 223, Some 159, Some 391, Some 392, Some 392] \<and>
   map m_in_stock
     (snd (projr (editable_grid exact_np (projr (make_df exact_np machine_a)) two_edits))) =
     [Some True, Some True, Some False, Some True, Some False,
      Some True, Some True, Some False, Some True, Some True]"
proof -
  let ?df = "projr (make_df exact_np machine_a)"
  let ?grid = "editable_grid exact_np ?df two_edits"
  have df: "make_df exact_np machine_a = Inr ?df"
    by (simp add: make_df_machine_a)
  have "\<exists>e. data_editor (editor_view ?df) two_edits = Inr e"
    by (rule data_editor_returns)
       (auto simp: two_edits_def in_int64_def split: if_splits)
  then have "\<not> isl ?grid"
    by (auto simp: editable_grid_def Let_def)
  then have g: "?grid = Inr (fst (projr ?grid), snd (projr ?grid))"
    by (cases ?grid) simp_all
  have edited: "map (\<lambda>e. (e_units e, e_in_stock e)) (fst (projr ?grid)) =
      [(Some 92, True), (Some 7, True), (Some 231, False), (Some 259, True), (Some 321, False),
       (Some 223, True), (Some 159, True), (Some 391, False), (Some 392, True), (Some 392, True)]"
    by (simp add: editable_grid_def data_editor_def make_df_machine_a editor_view_def
        edit_row_def in_int64_def two_edits_def Let_def)
  have eu: "map e_units (fst (projr ?grid)) =
      map fst (map (\<lambda>e. (e_units e, e_in_stock e)) (fst (projr ?grid)))"
    by simp
  have es: "map (\<lambda>e. Some (e_in_stock e)) (fst (projr ?grid)) =
      map (Some \<circ> snd) (map (\<lambda>e. (e_units e, e_in_stock e)) (fst (projr ?grid)))"
    by simp
  note t = recompute_keeps_rows_and_master_data [OF df g]
  have cols: "map p_id ?df = [1, 2, 3, 4, 5, 6, 7, 8, 9, 10]"
    "map p_product ?df =
       [''Engine Oil'', ''Air Filter'', ''Spark Plug'', ''Brake Pads'', ''Coolant'',
        ''Wiper Blade'', ''GPS Tracker'', ''Phone Mount'', ''Dash Cam'', ''Tyre Shine'']"
    "map p_price ?df =
       [Some 3374, Some 2783, Some 1433, Some 2498, Some 3062,
        Some 3127, Some 3448, Some 3031, Some 1169, Some 3100]"
    "length ?df = 10"
    by (simp_all add: make_df_machine_a)
  show ?thesis
    using t unfolding eu es edited cols by simp
qed

text \<open>
  C8. The generator is seeded with the constant 42, so the dataset is a function of the
  calendar date alone: two executions on machines that agree on the date build the same
  dataset (or raise the same exception), whatever else differs between them, the entropy
  a generator without a seed would draw on included.
\<close>

theorem dataset_is_reproducible:
  assumes "today m1 = today m2"
  shows "make_df np m1 = make_df np m2"
  using assms by (simp add: make_df_def default_rng_def)

text \<open>Two machines with different entropy on the same day.\<close>

theorem same_dataset_whatever_the_entropy:
  "os_entropy machine_a \<noteq> os_entropy machine_b \<and>
   make_df exact_np machine_a = make_df exact_np machine_b"
  using dataset_is_reproducible [of machine_a machine_b exact_np]
  by (simp add: machine_a_def machine_b_def)

end
